theory Spec2Isabelle
  imports Main
begin

unbundle bit_operations_syntax

section \<open>JavaScript values used by the driver\<close>

text \<open>
  The driver handles small integers, booleans and \<open>undefined\<close> (an array read past the
  end, a missing property). A JavaScript number is modelled as an integer or \<open>NaN\<close>.
  Doubles are exact on integers of magnitude below \<open>2^53\<close>, which covers the bytes,
  indices and 32-bit shift results the driver computes; the model does not round a sum
  beyond that range, nor hold fractions or infinities.
\<close>

datatype jsnum = Num int | NaN

datatype jsval = Undefined | Boolean bool | Number jsnum

datatype error = Thrown string | ReferenceError string | TypeError string | RangeError string

fun ToNumber :: "jsval \<Rightarrow> jsnum" where
  "ToNumber Undefined = NaN"
| "ToNumber (Boolean b) = Num (if b then 1 else 0)"
| "ToNumber (Number x) = x"

text \<open>\<open>ToInt32\<close>: \<open>NaN\<close> becomes 0, an integer is reduced modulo \<open>2^32\<close> into the signed range.\<close>

fun ToInt32 :: "jsnum \<Rightarrow> int" where
  "ToInt32 NaN = 0"
| "ToInt32 (Num i) = signed_take_bit 31 i"

text \<open>\<open>v << k\<close>: both operands go through \<open>ToInt32\<close>/\<open>ToUint32\<close>, the count is taken
  modulo 32 and the result is again a signed 32-bit integer.\<close>

definition js_shl :: "jsval \<Rightarrow> nat \<Rightarrow> jsnum" where
  "js_shl v k = Num (signed_take_bit 31 (push_bit (k mod 32) (ToInt32 (ToNumber v))))"

text \<open>\<open>a + b\<close> on operands that are not strings or objects: numeric addition.\<close>

fun js_add :: "jsnum \<Rightarrow> jsnum \<Rightarrow> jsnum" where
  "js_add (Num a) (Num b) = Num (a + b)"
| "js_add _ _ = NaN"

text \<open>\<open>v == 0\<close> (loose equality with the number 0).\<close>

fun js_eq_zero :: "jsval \<Rightarrow> bool" where
  "js_eq_zero Undefined = False"
| "js_eq_zero (Boolean b) = (\<not> b)"
| "js_eq_zero (Number (Num i)) = (i = 0)"
| "js_eq_zero (Number NaN) = False"

text \<open>\<open>xs[i]\<close>: reading an array past its end gives \<open>undefined\<close>.\<close>

definition js_index :: "jsval list \<Rightarrow> nat \<Rightarrow> jsval" where
  "js_index xs i = (if i < length xs then xs ! i else Undefined)"

text \<open>
  Resolving an identifier against the bindings in scope. The module binds \<open>fs\<close>,
  \<open>SPI\<close>, \<open>NO_OP\<close> and \<open>MAX7219\<close>, none of which is an array or a bus number, so the
  bindings passed are the parameters of the function being run; an identifier bound
  nowhere is a \<open>ReferenceError\<close>.
\<close>

fun scope_lookup :: "(string \<times> 'a) list \<Rightarrow> string \<Rightarrow> error + 'a" where
  "scope_lookup [] name = Inl (ReferenceError name)"
| "scope_lookup ((k, v) # env) name = (if k = name then Inr v else scope_lookup env name)"

text \<open>\<open>ToString\<close> of an integer, for \<open>"Digit" + n\<close>.\<close>

fun digits_nat :: "nat \<Rightarrow> string" where
  "digits_nat n =
     (if n < 10 then [''0123456789'' ! n]
      else digits_nat (n div 10) @ [''0123456789'' ! (n mod 10)])"

declare digits_nat.simps [simp del]

definition ToString :: "int \<Rightarrow> string" where
  "ToString n = (if n < 0 then CHR ''-'' # digits_nat (nat (- n)) else digits_nat (nat n))"

section \<open>Frame codec\<close>

text \<open>\<open>encodeByte\<close> (MAX7219.js, lines 388-397). It reads indices 0 to 7 and has no
  length check.\<close>

definition encodeByte :: "jsval list \<Rightarrow> jsnum" where
  "encodeByte bits =
     js_add (js_add (js_add (js_add (js_add (js_add (js_add
       (ToNumber (js_index bits 0))
       (js_shl (js_index bits 1) 1))
       (js_shl (js_index bits 2) 2))
       (js_shl (js_index bits 3) 3))
       (js_shl (js_index bits 4) 4))
       (js_shl (js_index bits 5) 5))
       (js_shl (js_index bits 6) 6))
       (js_shl (js_index bits 7) 7)"

text \<open>\<open>Buffer.from([a, b])\<close>: each entry is converted to a number and truncated to a byte
  (\<open>NaN\<close> becomes 0).\<close>

definition to_uint8 :: "jsval \<Rightarrow> int" where
  "to_uint8 v = (case ToNumber v of NaN \<Rightarrow> 0 | Num i \<Rightarrow> i mod 256)"

definition Buffer_from :: "jsval list \<Rightarrow> int list" where
  "Buffer_from vs = map to_uint8 vs"

section \<open>Register map and font table\<close>

text \<open>\<open>MAX7219._Registers\<close> (lines 57-72), as the object literal lists it.\<close>

definition Registers_table :: "(string \<times> int) list" where
  "Registers_table =
     [(''NoOp'', 0x00),
      (''Digit0'', 0x01),
      (''Digit1'', 0x02),
      (''Digit2'', 0x03),
      (''Digit3'', 0x04),
      (''Digit4'', 0x05),
      (''Digit5'', 0x06),
      (''Digit6'', 0x07),
      (''Digit7'', 0x08),
      (''DecodeMode'', 0x09),
      (''Intensity'', 0x0a),
      (''ScanLimit'', 0x0b),
      (''Shutdown'', 0x0c),
      (''DisplayTest'', 0x0f)]"

text \<open>\<open>MAX7219._Registers[key]\<close>: a key the object does not have reads as \<open>undefined\<close>.
  The keys looked up are the fixed names and \<open>"Digit" + n\<close>; none of them is a member of
  \<open>Object.prototype\<close>.\<close>

definition Registers :: "string \<Rightarrow> jsval" where
  "Registers key = (case map_of Registers_table key of Some v \<Rightarrow> Number (Num v) | None \<Rightarrow> Undefined)"

text \<open>\<open>parseInt(s, 2)\<close> on a string of binary digits.\<close>

definition parseInt2 :: "string \<Rightarrow> int" where
  "parseInt2 s = foldl (\<lambda>acc c. 2 * acc + (if c = CHR ''1'' then 1 else 0)) 0 s"

text \<open>\<open>MAX7219._Font\<close> (lines 77-126). The key of the degree sign is the one code unit
  \<open>0xB0\<close>.\<close>

definition Font :: "(string \<times> int) list" where
  "Font =
     [(''0'', parseInt2 ''1111110''),
      (''1'', parseInt2 ''0110000''),
      (''2'', parseInt2 ''1101101''),
      (''3'', parseInt2 ''1111001''),
      (''4'', parseInt2 ''0110011''),
      (''5'', parseInt2 ''1011011''),
      (''6'', parseInt2 ''1011111''),
      (''7'', parseInt2 ''1110000''),
      (''8'', parseInt2 ''1111111''),
      (''9'', parseInt2 ''1111011''),
      (''a'', parseInt2 ''1110111''),
      (''b'', parseInt2 ''0011111''),
      (''c'', parseInt2 ''0001101''),
      (''d'', parseInt2 ''0111101''),
      (''E'', parseInt2 ''1001111''),
      (''e'', parseInt2 ''1101111''),
      (''f'', parseInt2 ''1000111''),
      (''g'', parseInt2 ''1111011''),
      (''H'', parseInt2 ''0110111''),
      (''h'', parseInt2 ''0010111''),
      (''i'', parseInt2 ''0010000''),
      (''j'', parseInt2 ''0111100''),
      (''k'', parseInt2 ''1010111''),
      (''l'', parseInt2 ''0001110''),
      (''m'', parseInt2 ''1110110''),
      (''n'', parseInt2 ''0010101''),
      (''o'', parseInt2 ''0011101''),
      (''p'', parseInt2 ''1100111''),
      (''q'', parseInt2 ''1110011''),
      (''r'', parseInt2 ''0000101''),
      (''s'', parseInt2 ''1011011''),
      (''t'', parseInt2 ''0001111''),
      (''u'', parseInt2 ''0011100''),
      (''v'', parseInt2 ''0011100''),
      (''w'', parseInt2 ''0011100''),
      (''x'', parseInt2 ''0110111''),
      (''y'', parseInt2 ''0111011''),
      (''z'', parseInt2 ''1101101''),
      (''-'', parseInt2 ''0000001''),
      (''_'', parseInt2 ''0001000''),
      (''['', parseInt2 ''1001110''),
      (''('', parseInt2 ''1001110''),
      ('']'', parseInt2 ''1111000''),
      ('')'', parseInt2 ''1111000''),
      ([CHR 0xB0], parseInt2 ''1100011''),
      (''!'', parseInt2 ''10100000''),
      ([CHR 0x27], parseInt2 ''0100000''),
      (''.'', parseInt2 ''10000000'')]"

definition BLANK :: int where
  "BLANK = parseInt2 ''00000000''"

text \<open>
  \<open>symbol in MAX7219._Font\<close> also finds what the object inherits from
  \<open>Object.prototype\<close>. Reading such a member gives a function (for \<open>__proto__\<close> the
  prototype object), which \<open>|\<close> converts to a number as \<open>NaN\<close>.
\<close>

definition Object_prototype_keys :: "string list" where
  "Object_prototype_keys =
     [''constructor'', ''__defineGetter__'', ''__defineSetter__'', ''hasOwnProperty'',
      ''__lookupGetter__'', ''__lookupSetter__'', ''isPrototypeOf'', ''propertyIsEnumerable'',
      ''toString'', ''valueOf'', ''__proto__'', ''toLocaleString'']"

definition Font_in :: "string \<Rightarrow> bool" where
  "Font_in symbol \<longleftrightarrow> symbol \<in> set (map fst Font) \<or> symbol \<in> set Object_prototype_keys"

definition Font_number :: "string \<Rightarrow> jsnum" where
  "Font_number symbol = (case map_of Font symbol of Some v \<Rightarrow> Num v | None \<Rightarrow> NaN)"

section \<open>Transport and controller state\<close>

text \<open>
  The transport (\<open>spi-device\<close>) is external. A handle is an entry of the table of all
  handles opened so far, open or closed; the messages handed to \<open>transfer\<close> are logged in
  order, with the handle they were given to. Opening and closing are taken to succeed;
  completion callbacks belong to the transport and are not modelled. The controller keeps
  the decode-mode array it was passed; the model keeps its value, \<open>None\<close> standing for
  the field never assigned.
\<close>

record spi_device =
  dev_bus :: int
  dev_number :: int
  dev_open :: bool

record spi_message =
  sendBuffer :: "int list"
  receiveBuffer :: "int list"
  byteLength :: nat
  speedHz :: nat

record max7219 =
  bus :: int
  activeController :: int
  totalControllers :: int
  buffer_size :: int
  spi :: "nat option"
  decodeModes :: "jsval list option"
  handles :: "spi_device list"
  transfers :: "(nat \<times> spi_message) list"

definition openSync :: "int \<Rightarrow> int \<Rightarrow> spi_device list \<Rightarrow> nat \<times> spi_device list" where
  "openSync b d hs = (length hs, hs @ [\<lparr>dev_bus = b, dev_number = d, dev_open = True\<rparr>])"

definition closeSync :: "nat \<Rightarrow> spi_device list \<Rightarrow> spi_device list" where
  "closeSync h hs = (if h < length hs then hs[h := (hs ! h)\<lparr>dev_open := False\<rparr>] else hs)"

definition open_handles :: "max7219 \<Rightarrow> nat" where
  "open_handles s = length (filter dev_open (handles s))"

text \<open>
  The constructor (lines 44-50): \<open>device\<close> defaults to 0 when it is \<open>undefined\<close>,
  \<open>count || 1\<close> replaces a missing or zero count by 1, and \<open>new Buffer(size)\<close> refuses a
  size that is negative or above the platform's limit, taken as the parameter
  \<open>kMaxLength\<close>. \<open>_decodeModes\<close> is not assigned.
\<close>

definition MAX7219 :: "int \<Rightarrow> int \<Rightarrow> int option \<Rightarrow> int option \<Rightarrow> error + max7219" where
  "MAX7219 kMaxLength b device count =
     (let dev = (case device of None \<Rightarrow> 0 | Some d \<Rightarrow> d);
          total = (case count of None \<Rightarrow> 1 | Some c \<Rightarrow> if c = 0 then 1 else c)
      in if total * 2 < 0 \<or> total * 2 > kMaxLength then Inl (RangeError ''size'')
         else let (h, hs) = openSync b dev []
              in Inr \<lparr>bus = b, activeController = dev, totalControllers = total,
                      buffer_size = total * 2, spi = Some h, decodeModes = None,
                      handles = hs, transfers = []\<rparr>)"

section \<open>Controller operations\<close>

text \<open>Every operation returns what it threw (\<open>None\<close> when it returned normally) and the
  state it left behind.\<close>

text \<open>\<open>_shiftOut\<close> (lines 409-422).\<close>

definition shiftOut :: "jsval \<Rightarrow> jsval \<Rightarrow> max7219 \<Rightarrow> error option \<times> max7219" where
  "shiftOut firstByte secondByte s =
     (case spi s of
        None \<Rightarrow> (Some (Thrown ''SPI device not initialized''), s)
      | Some h \<Rightarrow>
          (let message = \<lparr>sendBuffer = Buffer_from [firstByte, secondByte],
                          receiveBuffer = [0, 0], byteLength = 2, speedHz = 20000\<rparr>
           in (None, s\<lparr>transfers := transfers s @ [(h, message)]\<rparr>)))"

text \<open>\<open>setActiveController\<close> (lines 137-144). The only number bound in its scope is the
  parameter \<open>index\<close>; the body reads the identifier \<open>bus\<close>.\<close>

definition setActiveController :: "int \<Rightarrow> max7219 \<Rightarrow> error option \<times> max7219" where
  "setActiveController index s =
     (if index < 0 \<or> index \<ge> totalControllers s
      then (Some (Thrown ''Controller index is out of bounds''), s)
      else case spi s of
        None \<Rightarrow> (Some (TypeError ''closeSync''), s)
      | Some h \<Rightarrow>
          (let s1 = s\<lparr>handles := closeSync h (handles s)\<rparr>
           in case scope_lookup [(''index'', index)] ''bus'' of
                Inl e \<Rightarrow> (Some e, s1)
              | Inr b \<Rightarrow>
                  (let (h', hs) = openSync b index (handles s1)
                   in (None, s1\<lparr>handles := hs, spi := Some h', activeController := index\<rparr>))))"

definition getActiveController :: "max7219 \<Rightarrow> int" where
  "getActiveController s = activeController s"

definition startup :: "max7219 \<Rightarrow> error option \<times> max7219" where
  "startup s = shiftOut (Registers ''Shutdown'') (Number (Num 0x01)) s"

definition shutdown :: "max7219 \<Rightarrow> error option \<times> max7219" where
  "shutdown s = shiftOut (Registers ''Shutdown'') (Number (Num 0x00)) s"

text \<open>\<open>setDecodeMode\<close> (lines 219-225) and its two shortcuts.\<close>

definition setDecodeMode :: "jsval list \<Rightarrow> max7219 \<Rightarrow> error option \<times> max7219" where
  "setDecodeMode modes s =
     (if length modes \<noteq> 8 then (Some (Thrown ''Invalid decode mode array''), s)
      else shiftOut (Registers ''DecodeMode'') (Number (encodeByte modes))
             (s\<lparr>decodeModes := Some modes\<rparr>))"

definition setDecodeNone :: "max7219 \<Rightarrow> error option \<times> max7219" where
  "setDecodeNone s = setDecodeMode (map (\<lambda>i. Number (Num i)) [0,0,0,0,0,0,0,0]) s"


text \<open>\<open>setDigitSegmentsByte\<close> (lines 286-288): no check of \<open>n\<close>.\<close>

definition setDigitSegmentsByte :: "int \<Rightarrow> jsval \<Rightarrow> max7219 \<Rightarrow> error option \<times> max7219" where
  "setDigitSegmentsByte n byte s = shiftOut (Registers (''Digit'' @ ToString n)) byte s"

text \<open>\<open>setDigitSegments\<close> (lines 270-278). Its array parameter is named \<open>segment\<close>; the
  body reads the identifier \<open>segments\<close>.\<close>

definition setDigitSegments :: "int \<Rightarrow> jsval list \<Rightarrow> max7219 \<Rightarrow> error option \<times> max7219" where
  "setDigitSegments n segment s =
     (if n < 0 \<or> n > 7 then (Some (Thrown ''Invalid digit number''), s)
      else case scope_lookup [(''segment'', segment)] ''segments'' of
             Inl e \<Rightarrow> (Some e, s)
           | Inr segments \<Rightarrow>
               if length segments \<noteq> 8 then (Some (Thrown ''Invalid segments array''), s)
               else setDigitSegmentsByte n (Number (encodeByte segments)) s)"

text \<open>\<open>setDigitSymbol\<close> (lines 306-318).\<close>

definition setDigitSymbol :: "int \<Rightarrow> string \<Rightarrow> bool \<Rightarrow> max7219 \<Rightarrow> error option \<times> max7219" where
  "setDigitSymbol n symbol dp s =
     (if n < 0 \<or> n > 7 then (Some (Thrown ''Invalid digit number''), s)
      else let hexSymbol = (if \<not> Font_in symbol then Num BLANK else Font_number symbol);
               byte = ToInt32 hexSymbol OR (if dp then push_bit 7 1 else 0)
           in shiftOut (Registers (''Digit'' @ ToString n)) (Number (Num byte)) s)"

definition setDisplayIntensity :: "int \<Rightarrow> max7219 \<Rightarrow> error option \<times> max7219" where
  "setDisplayIntensity brightness s =
     (if brightness < 0 \<or> brightness > 15 then (Some (Thrown ''Invalid brightness number''), s)
      else shiftOut (Registers ''Intensity'') (Number (Num brightness)) s)"

text \<open>\<open>setScanLimit\<close> (lines 372-377).\<close>

definition setScanLimit :: "int \<Rightarrow> max7219 \<Rightarrow> error option \<times> max7219" where
  "setScanLimit limit s =
     (if limit < 1 \<or> limit > 8 then (Some (Thrown ''Invalid scan limit number''), s)
      else shiftOut (Registers ''ScanLimit'') (Number (Num (limit - 1))) s)"

text \<open>
  \<open>clearDisplay\<close> (lines 330-343). The loop reads \<open>this._decodeModes.length\<close> and
  \<open>this._decodeModes[i]\<close> again on every round; an exception thrown by a write leaves
  the loop.
\<close>

function clear_loop :: "nat \<Rightarrow> max7219 \<Rightarrow> error option \<times> max7219" where
  "clear_loop i s =
     (case decodeModes s of
        None \<Rightarrow> (Some (TypeError ''length''), s)
      | Some modes \<Rightarrow>
          if i < length modes then
            (let mode = modes ! i;
                 step = (if js_eq_zero mode
                         then setDigitSegmentsByte (int i) (Number (Num 0x00)) s
                         else setDigitSymbol (int i) '' '' False s)
             in case fst step of
                  Some e \<Rightarrow> (Some e, snd step)
                | None \<Rightarrow> clear_loop (i + 1) (snd step))
          else (None, s))"
  by pat_completeness auto
termination
  by (relation "measure (\<lambda>(i, s). (case decodeModes s of None \<Rightarrow> 0 | Some m \<Rightarrow> length m) - i)")
     (auto simp: setDigitSegmentsByte_def setDigitSymbol_def shiftOut_def Let_def
           split: option.splits if_splits)

declare clear_loop.simps [simp del]

definition clearDisplay :: "max7219 \<Rightarrow> error option \<times> max7219" where
  "clearDisplay s =
     (let first = (if decodeModes s = None then setDecodeNone s else (None, s))
      in case fst first of
           Some e \<Rightarrow> (Some e, snd first)
         | None \<Rightarrow> clear_loop 0 (snd first))"

section \<open>Vocabulary of the statements\<close>

text \<open>The message \<open>_shiftOut\<close> builds for the two bytes \<open>(reg, data)\<close>.\<close>

definition frame :: "int \<Rightarrow> int \<Rightarrow> spi_message" where
  "frame reg data =
     \<lparr>sendBuffer = [reg, data], receiveBuffer = [0, 0], byteLength = 2, speedHz = 20000\<rparr>"

text \<open>The state \<open>new MAX7219(0, undefined, 2)\<close> constructs: two controllers, the first
  one active, its handle open, no decode mode stored, nothing sent.\<close>

definition chain_of_two :: max7219 where
  "chain_of_two =
     \<lparr>bus = 0, activeController = 0, totalControllers = 2, buffer_size = 4,
      spi = Some 0, decodeModes = None,
      handles = [\<lparr>dev_bus = 0, dev_number = 0, dev_open = True\<rparr>], transfers = []\<rparr>"

text \<open>An array of the numbers given, as the examples of the source write them.\<close>

definition numbers :: "int list \<Rightarrow> jsval list" where
  "numbers xs = map (\<lambda>i. Number (Num i)) xs"

text \<open>Running operations one after the other; the first one that throws ends the run.\<close>

fun run_all :: "(max7219 \<Rightarrow> error option \<times> max7219) list \<Rightarrow> max7219 \<Rightarrow> error option \<times> max7219" where
  "run_all [] s = (None, s)"
| "run_all (f # fs) s =
     (case fst (f s) of Some e \<Rightarrow> (Some e, snd (f s)) | None \<Rightarrow> run_all fs (snd (f s)))"

text \<open>
  \<open>setDecodeMode\<close> stores the caller's array itself, so a caller that appends to its
  array afterwards leaves the controller with a longer vector. This is the chain of two
  with a stored vector of nine ones.
\<close>

definition nine_ones :: max7219 where
  "nine_ones = chain_of_two\<lparr>decodeModes := Some (numbers [1,1,1,1,1,1,1,1,1])\<rparr>"

section \<open>Basic facts\<close>

lemma constructed_chain_of_two: "MAX7219 4096 0 None (Some 2) = Inr chain_of_two"
  by (simp add: MAX7219_def openSync_def chain_of_two_def)

lemma Registers_fixed:
  "Registers ''DecodeMode'' = Number (Num 9)"
  "Registers ''ScanLimit'' = Number (Num 11)"
  "Registers ''Intensity'' = Number (Num 10)"
  "Registers ''Shutdown'' = Number (Num 12)"
  by (simp_all add: Registers_def Registers_table_def)

lemma shiftOut_writes:
  "spi s = Some h \<Longrightarrow>
   shiftOut a b s = (None, s\<lparr>transfers := transfers s @ [(h, frame (to_uint8 a) (to_uint8 b))]\<rparr>)"
  by (simp add: shiftOut_def frame_def Buffer_from_def)

lemma js_index_simps:
  "js_index (x # xs) 0 = x"
  "js_index (x # xs) (Suc n) = js_index xs n"
  "js_index [] n = Undefined"
  by (simp_all add: js_index_def)

lemma js_index_numeral: "js_index (x # xs) (numeral k) = js_index xs (pred_numeral k)"
  by (simp add: js_index_def numeral_eq_Suc)

lemma js_index_pad:
  "i < 8 \<Longrightarrow>
   js_index (take 8 bits @ replicate (8 - length bits) Undefined) i = js_index bits i"
  by (auto simp add: js_index_def nth_append)

lemma encodeByte_example: "encodeByte (numbers [1,0,1,0,1,0,1,0]) = Num 0x55"
  by (simp add: encodeByte_def numbers_def js_index_simps js_index_numeral js_shl_def)

lemma length_eight:
  "length xs = 8 \<longleftrightarrow> (\<exists>a b c d e f g h. xs = [a, b, c, d, e, f, g, h])"
  by (auto simp add: numeral_eq_Suc length_Suc_conv)

lemma js_shl_bit:
  assumes "ToNumber v = Num (if b then 1 else 0)" and "k < 31"
  shows "js_shl v k = Num (of_bool b * 2 ^ k)"
proof -
  have "(2::int) ^ k < 2 ^ 31"
    using assms(2) by (intro power_strict_increasing) simp_all
  moreover have "- (2 ^ 31) \<le> (2::int) ^ k"
    by (rule order_trans [of _ 0]) simp_all
  ultimately have "signed_take_bit 31 (2 ^ k :: int) = 2 ^ k"
    by (simp add: signed_take_bit_int_eq_self_iff)
  then show ?thesis
    using assms by (simp add: js_shl_def push_bit_eq_mult)
qed

lemma encodeByte_horner:
  assumes enc: "\<And>b. ToNumber (enc b) = Num (if b then 1 else 0)" and len: "length bs = 8"
  shows "encodeByte (map enc bs) = Num (horner_sum of_bool 2 bs)"
proof -
  from len obtain a b c d e f g h where bs: "bs = [a, b, c, d, e, f, g, h]"
    unfolding length_eight by blast
  have sh: "\<And>x k. k < 31 \<Longrightarrow> js_shl (enc x) k = Num (of_bool x * 2 ^ k)"
    using enc by (rule js_shl_bit)
  show ?thesis
    unfolding bs encodeByte_def
    by (simp add: js_index_simps js_index_numeral sh enc)
qed

lemma horner_bound: "length bs = 8 \<Longrightarrow> horner_sum of_bool (2::int) bs \<in> {0..<256}"
proof -
  assume "length bs = 8"
  then have "horner_sum of_bool (2::int) bs < 2 ^ 8"
    using horner_sum_of_bool_2_less [of bs] by simp
  moreover have "0 \<le> horner_sum of_bool (2::int) bs"
    by (induction bs) simp_all
  ultimately show ?thesis by simp
qed

lemma digit_index_cases:
  "0 \<le> n \<Longrightarrow> n \<le> 7 \<Longrightarrow> n \<in> {0, 1, 2, 3, 4, 5, 6, 7 :: int}"
  by auto

lemma Digit_register_each:
  "Registers (''Digit'' @ ToString 0) = Number (Num 1)"
  "Registers (''Digit'' @ ToString 1) = Number (Num 2)"
  "Registers (''Digit'' @ ToString 2) = Number (Num 3)"
  "Registers (''Digit'' @ ToString 3) = Number (Num 4)"
  "Registers (''Digit'' @ ToString 4) = Number (Num 5)"
  "Registers (''Digit'' @ ToString 5) = Number (Num 6)"
  "Registers (''Digit'' @ ToString 6) = Number (Num 7)"
  "Registers (''Digit'' @ ToString 7) = Number (Num 8)"
  by (simp_all add: Registers_def Registers_table_def ToString_def digits_nat.simps)

lemma Digit_register:
  assumes "0 \<le> n" and "n \<le> 7"
  shows "Registers (''Digit'' @ ToString n) = Number (Num (n + 1))"
proof -
  have "n \<in> {0, 1, 2, 3, 4, 5, 6, 7}"
    using assms by (rule digit_index_cases)
  then show ?thesis
    by (elim insertE emptyE; simp only: Digit_register_each; simp)
qed

lemma Font_entries_range: "list_all (\<lambda>(k, v). 0 \<le> v \<and> v \<le> 255) Font"
  by (simp add: Font_def parseInt2_def)

lemma Font_range:
  assumes "map_of Font symbol = Some v"
  shows "0 \<le> v \<and> v \<le> 255"
proof -
  from assms have "(symbol, v) \<in> set Font"
    by (rule map_of_SomeD)
  with Font_entries_range show ?thesis
    by (auto simp add: list_all_iff)
qed

lemma hexSymbol_value:
  "ToInt32 (if \<not> Font_in symbol then Num BLANK else Font_number symbol)
     = (case map_of Font symbol of Some v \<Rightarrow> v | None \<Rightarrow> 0)"
proof (cases "map_of Font symbol")
  case None
  then show ?thesis
    by (simp add: Font_number_def BLANK_def parseInt2_def)
next
  case (Some v)
  then have "symbol \<in> set (map fst Font)"
    by (metis map_of_eq_None_iff option.distinct(1) set_map)
  moreover have "signed_take_bit 31 v = v"
    using Font_range [OF Some] by (simp add: signed_take_bit_int_eq_self_iff)
  ultimately show ?thesis
    using Some by (simp add: Font_in_def Font_number_def)
qed

lemma or_dp_byte:
  assumes "0 \<le> v" and "v \<le> 255"
  shows "(v OR (if dp then push_bit 7 1 else 0)) mod 256 = v OR (if dp then 0x80 else (0::int))"
proof -
  define w where "w = v OR (if dp then 0x80 else 0)"
  have "w < 2 ^ 8"
    unfolding w_def using assms by (intro OR_upper) (simp_all)
  moreover have "0 \<le> w"
    unfolding w_def using assms by simp
  ultimately have "w mod 256 = w" by simp
  moreover have "(if dp then push_bit 7 1 else 0) = (if dp then 0x80 else (0::int))"
    by (simp add: push_bit_eq_mult)
  ultimately show ?thesis
    unfolding w_def by (simp only:)
qed

lemma setDigitSymbol_frame:
  assumes n: "0 \<le> n" "n \<le> 7" and h: "spi s = Some h"
  shows "setDigitSymbol n symbol dp s
      = (None, s\<lparr>transfers := transfers s @
           [(h, frame (n + 1) ((case map_of Font symbol of Some v \<Rightarrow> v | None \<Rightarrow> 0)
                                 OR (if dp then 0x80 else 0)))]\<rparr>)"
proof -
  define v where "v = (case map_of Font symbol of Some v \<Rightarrow> v | None \<Rightarrow> 0)"
  have range: "0 \<le> v" "v \<le> 255"
    unfolding v_def using Font_range [of symbol] by (auto split: option.splits)
  have "to_uint8 (Number (Num (v OR (if dp then push_bit 7 1 else 0))))
          = v OR (if dp then 0x80 else 0)"
    using or_dp_byte [OF range] by (simp add: to_uint8_def)
  moreover have "to_uint8 (Number (Num (n + 1))) = n + 1"
    using n by (simp add: to_uint8_def)
  moreover have "Registers (''Digit'' @ ToString n) = Number (Num (n + 1))"
    using n by (rule Digit_register)
  ultimately show ?thesis
    unfolding setDigitSymbol_def Let_def hexSymbol_value
    using n h by (simp add: shiftOut_writes flip: v_def)
qed

lemma setDigitSegmentsByte_frame:
  assumes "0 \<le> n" "n \<le> 7" and "spi s = Some h"
  shows "setDigitSegmentsByte n (Number (Num 0x00)) s
      = (None, s\<lparr>transfers := transfers s @ [(h, frame (n + 1) 0)]\<rparr>)"
proof -
  have "Registers (''Digit'' @ ToString n) = Number (Num (n + 1))"
    using assms(1,2) by (rule Digit_register)
  then show ?thesis
    unfolding setDigitSegmentsByte_def
    using assms by (simp add: shiftOut_writes to_uint8_def)
qed

lemma blank_not_in_Font: "map_of Font '' '' = None"
  by (simp add: Font_def)

lemma setDigitSymbol_blank:
  assumes "0 \<le> n" "n \<le> 7" and "spi s = Some h"
  shows "setDigitSymbol n '' '' False s
      = (None, s\<lparr>transfers := transfers s @ [(h, frame (n + 1) 0)]\<rparr>)"
  using setDigitSymbol_frame [OF assms, of "'' ''" False] by (simp add: blank_not_in_Font)


lemma clear_loop_writes:
  assumes "decodeModes s = Some modes" and "spi s = Some h" and "length modes \<le> 8"
    and "i \<le> length modes"
  shows "clear_loop i s
      = (None, s\<lparr>transfers := transfers s @
           map (\<lambda>j. (h, frame (int j + 1) 0)) [i..<length modes]\<rparr>)"
  using assms
proof (induction "length modes - i" arbitrary: i s)
  case 0
  then show ?case
    by (subst clear_loop.simps) simp
next
  case (Suc k)
  then have i: "i < length modes" by simp
  let ?s' = "s\<lparr>transfers := transfers s @ [(h, frame (int i + 1) 0)]\<rparr>"
  have range: "0 \<le> int i" "int i \<le> 7"
    using i Suc.prems(3) by simp_all
  have step: "(if js_eq_zero (modes ! i)
               then setDigitSegmentsByte (int i) (Number (Num 0x00)) s
               else setDigitSymbol (int i) '' '' False s) = (None, ?s')"
    using setDigitSegmentsByte_frame [OF range Suc.prems(2)]
          setDigitSymbol_blank [OF range Suc.prems(2)]
    by simp
  have "clear_loop (i + 1) ?s'
      = (None, ?s'\<lparr>transfers := transfers ?s' @
           map (\<lambda>j. (h, frame (int j + 1) 0)) [i + 1..<length modes]\<rparr>)"
    using Suc.hyps(2) Suc.prems i by (intro Suc.hyps(1)) simp_all
  moreover have "clear_loop i s = clear_loop (i + 1) ?s'"
    by (subst clear_loop.simps) (simp add: Suc.prems(1) i step Let_def)
  ultimately show ?case
    using i by (simp add: upt_conv_Cons)
qed



lemma setDecodeMode_frame:
  assumes "length modes = 8" and "spi s = Some h"
  shows "setDecodeMode modes s
      = (None, s\<lparr>decodeModes := Some modes,
                   transfers := transfers s @ [(h, frame 0x09 (to_uint8 (Number (encodeByte modes))))]\<rparr>)"
  using assms by (simp add: setDecodeMode_def shiftOut_writes Registers_fixed to_uint8_def)

lemma encodeByte_all_none:
  "encodeByte (numbers [0,0,0,0,0,0,0,0]) = Num 0x00"
  "encodeByte (numbers [1,1,1,1,1,1,1,1]) = Num 0xFF"
  by (simp_all add: encodeByte_def numbers_def js_index_simps js_index_numeral js_shl_def)

lemma setDecodeNone_frame:
  assumes "spi s = Some h"
  shows "setDecodeNone s
      = (None, s\<lparr>decodeModes := Some (numbers [0,0,0,0,0,0,0,0]),
                   transfers := transfers s @ [(h, frame 0x09 0x00)]\<rparr>)"
  using setDecodeMode_frame [OF _ assms, of "numbers [0,0,0,0,0,0,0,0]"]
  by (simp add: setDecodeNone_def encodeByte_all_none to_uint8_def flip: numbers_def)
     (simp add: numbers_def)


lemma clearDisplay_set:
  assumes "decodeModes s = Some modes" and "length modes = 8" and "spi s = Some h"
  shows "clearDisplay s
      = (None, s\<lparr>transfers := transfers s @ map (\<lambda>j. (h, frame (int j + 1) 0)) [0..<8]\<rparr>)"
  using clear_loop_writes [OF assms(1) assms(3), of 0] assms
  by (simp add: clearDisplay_def)



section \<open>Selecting the active controller\<close>

text \<open>
  C8. For every index below 0 or at least \<open>totalControllers\<close>, \<open>setActiveController\<close>
  throws the out-of-bounds error and returns the state it was given: the handle table
  (so the open handle), the handle in use and the active index are all unchanged.
\<close>

theorem setActiveController_out_of_bounds:
  assumes "index < 0 \<or> index \<ge> totalControllers s"
  shows "setActiveController index s = (Some (Thrown ''Controller index is out of bounds''), s)"
  using assms by (simp add: setActiveController_def)

theorem setActiveController_out_of_bounds_witness:
  "setActiveController 2 chain_of_two
     = (Some (Thrown ''Controller index is out of bounds''), chain_of_two)
   \<and> setActiveController (- 1) chain_of_two
     = (Some (Thrown ''Controller index is out of bounds''), chain_of_two)"
  using setActiveController_out_of_bounds [of 2 chain_of_two]
        setActiveController_out_of_bounds [of "- 1" chain_of_two]
  by (simp add: chain_of_two_def)

text \<open>
  C2. On the chain of two controllers, \<open>setActiveController(1)\<close> passes the bounds check
  and closes the open handle, then throws a \<open>ReferenceError\<close> on the identifier \<open>bus\<close>
  before any handle is opened: the controller is left with no open handle, and the active
  index is still 0.
\<close>

theorem setActiveController_closes_and_throws:
  "setActiveController 1 chain_of_two
     = (Some (ReferenceError ''bus''),
        chain_of_two\<lparr>handles := [\<lparr>dev_bus = 0, dev_number = 0, dev_open = False\<rparr>]\<rparr>)
   \<and> open_handles chain_of_two = 1
   \<and> open_handles (snd (setActiveController 1 chain_of_two)) = 0
   \<and> activeController (snd (setActiveController 1 chain_of_two)) = 0"
  by (simp add: setActiveController_def chain_of_two_def closeSync_def open_handles_def)

text \<open>The same holds of every index within bounds, on every controller with a handle.\<close>

lemma setActiveController_in_bounds:
  "0 \<le> index \<Longrightarrow> index < totalControllers s \<Longrightarrow> spi s = Some h \<Longrightarrow>
   setActiveController index s
     = (Some (ReferenceError ''bus''), s\<lparr>handles := closeSync h (handles s)\<rparr>)"
  by (simp add: setActiveController_def)

section \<open>Scan limit\<close>

text \<open>
  C9. \<open>setScanLimit\<close> throws for every limit below 1 or above 8 and leaves the state as
  it was; for a limit from 1 to 8, on a controller with a handle, it hands the transport
  the frame (ScanLimit register \<open>0x0b\<close>, \<open>limit - 1\<close>): data byte \<open>0x00\<close> for 1 and
  \<open>0x07\<close> for 8.
\<close>

theorem setScanLimit_wire:
  "(limit < 1 \<or> limit > 8 \<longrightarrow>
      setScanLimit limit s = (Some (Thrown ''Invalid scan limit number''), s))
   \<and> (1 \<le> limit \<and> limit \<le> 8 \<and> spi s = Some h \<longrightarrow>
        setScanLimit limit s
          = (None, s\<lparr>transfers := transfers s @ [(h, frame 0x0b (limit - 1))]\<rparr>))"
proof (intro conjI impI)
  assume "limit < 1 \<or> limit > 8"
  then show "setScanLimit limit s = (Some (Thrown ''Invalid scan limit number''), s)"
    by (simp add: setScanLimit_def)
next
  assume a: "1 \<le> limit \<and> limit \<le> 8 \<and> spi s = Some h"
  then show "setScanLimit limit s
      = (None, s\<lparr>transfers := transfers s @ [(h, frame 0x0b (limit - 1))]\<rparr>)"
    by (simp add: setScanLimit_def shiftOut_writes Registers_fixed to_uint8_def)
qed

theorem setScanLimit_wire_witness:
  "setScanLimit 1 chain_of_two = (None, chain_of_two\<lparr>transfers := [(0, frame 0x0b 0x00)]\<rparr>)
   \<and> setScanLimit 8 chain_of_two = (None, chain_of_two\<lparr>transfers := [(0, frame 0x0b 0x07)]\<rparr>)
   \<and> setScanLimit 0 chain_of_two = (Some (Thrown ''Invalid scan limit number''), chain_of_two)
   \<and> setScanLimit 9 chain_of_two = (Some (Thrown ''Invalid scan limit number''), chain_of_two)"
  using setScanLimit_wire [of 1 chain_of_two 0] setScanLimit_wire [of 8 chain_of_two 0]
        setScanLimit_wire [of 0 chain_of_two 0] setScanLimit_wire [of 9 chain_of_two 0]
  by (simp add: chain_of_two_def)

section \<open>Decode mode\<close>

text \<open>
  C7. \<open>setDecodeMode\<close> with a vector whose length is not 8 throws and returns the state
  unchanged, so nothing was handed to the transport; with \<open>[1,0,1,0,1,0,1,0]\<close>, on a
  controller with a handle, it stores the vector and sends the frame (DecodeMode register
  \<open>0x09\<close>, \<open>0x55\<close>).
\<close>

theorem setDecodeMode_length_and_example:
  "(length modes \<noteq> 8 \<longrightarrow>
      setDecodeMode modes s = (Some (Thrown ''Invalid decode mode array''), s))
   \<and> (spi s = Some h \<longrightarrow>
        setDecodeMode (numbers [1,0,1,0,1,0,1,0]) s
          = (None, s\<lparr>decodeModes := Some (numbers [1,0,1,0,1,0,1,0]),
                       transfers := transfers s @ [(h, frame 0x09 0x55)]\<rparr>))"
  by (simp add: setDecodeMode_def shiftOut_writes Registers_fixed encodeByte_example to_uint8_def)
     (simp add: numbers_def)

theorem setDecodeMode_length_and_example_witness:
  "setDecodeMode (numbers [1,0,1,0,1,0,1]) chain_of_two
     = (Some (Thrown ''Invalid decode mode array''), chain_of_two)
   \<and> transfers (snd (setDecodeMode (numbers [1,0,1,0,1,0,1]) chain_of_two)) = []
   \<and> setDecodeMode (numbers [1,0,1,0,1,0,1,0]) chain_of_two
     = (None, chain_of_two\<lparr>decodeModes := Some (numbers [1,0,1,0,1,0,1,0]),
                            transfers := [(0, frame 0x09 0x55)]\<rparr>)"
  using setDecodeMode_length_and_example [of "numbers [1,0,1,0,1,0,1]" chain_of_two 0]
  by (simp add: chain_of_two_def numbers_def)

section \<open>Packing bits\<close>

text \<open>
  C3, as stated, fails: \<open>encodeByte\<close> returns a number for the two-element input
  \<open>[1,1]\<close> and for the nine-element input \<open>[1,0,0,0,0,0,0,0,1]\<close>.
\<close>

theorem encodeByte_accepts_other_lengths:
  "length (numbers [1,1]) \<noteq> 8 \<and> encodeByte (numbers [1,1]) = Num 3
   \<and> length (numbers [1,0,0,0,0,0,0,0,1]) \<noteq> 8
   \<and> encodeByte (numbers [1,0,0,0,0,0,0,0,1]) = Num 1"
  by (simp add: encodeByte_def numbers_def js_index_simps js_index_numeral js_shl_def)

text \<open>
  C3, amended. \<open>encodeByte\<close> has no length check: on any array it encodes the elements
  at indices 0 to 7, ignoring what follows the eighth and reading a missing element as
  \<open>undefined\<close>. An array whose length is not 8 is rejected by the caller
  \<open>setDecodeMode\<close>, which throws before it calls \<open>encodeByte\<close> and leaves the state
  unchanged.
\<close>

theorem encodeByte_reads_eight_caller_checks:
  "encodeByte bits = encodeByte (take 8 (bits @ replicate 8 Undefined))
   \<and> (length bits \<noteq> 8 \<longrightarrow>
        setDecodeMode bits s = (Some (Thrown ''Invalid decode mode array''), s))"
  by (simp add: encodeByte_def js_index_pad setDecodeMode_def)

theorem encodeByte_reads_eight_caller_checks_witness:
  "encodeByte (numbers [1,1]) = encodeByte (numbers [1,1] @ replicate 6 Undefined)
   \<and> setDecodeMode (numbers [1,1]) chain_of_two
     = (Some (Thrown ''Invalid decode mode array''), chain_of_two)"
  using encodeByte_reads_eight_caller_checks [of "numbers [1,1]" chain_of_two]
  by (simp add: numbers_def)

text \<open>
  C4. Let the eight booleans be given in any representation whose numeric value is 1 for
  true and 0 for false (the numbers \<open>1\<close>/\<open>0\<close> of the source's examples, or
  \<open>true\<close>/\<open>false\<close>). Then \<open>encodeByte\<close> is a bijection between the boolean sequences of
  length 8 and the 256 bytes \<open>0..255\<close>, and bit \<open>i\<close> of the result (bit 0 the least
  significant) is element \<open>i\<close> of the input, for every \<open>i\<close> from 0 to 7.
\<close>

theorem encodeByte_bijection:
  assumes enc: "\<forall>b. ToNumber (enc b) = Num (if b then 1 else 0)"
  shows "bij_betw (\<lambda>bs. encodeByte (map enc bs)) {bs. length bs = 8} (Num ` {0..<256})
         \<and> (\<forall>bs. length bs = 8 \<longrightarrow>
               (\<exists>n. encodeByte (map enc bs) = Num n \<and> (\<forall>i<8. bit n i = bs ! i)))"
proof (intro conjI allI impI)
  have eq: "encodeByte (map enc bs) = Num (horner_sum of_bool 2 bs)" if "length bs = 8" for bs
    using enc that by (intro encodeByte_horner) simp_all
  have inj: "inj_on (\<lambda>bs. encodeByte (map enc bs)) {bs. length bs = 8}"
  proof (rule inj_onI)
    fix xs ys
    assume xs: "xs \<in> {bs. length bs = 8}" and ys: "ys \<in> {bs. length bs = 8}"
      and same: "encodeByte (map enc xs) = encodeByte (map enc ys)"
    then have h: "horner_sum of_bool (2::int) xs = horner_sum of_bool 2 ys"
      by (simp add: eq)
    show "xs = ys"
    proof (rule nth_equalityI)
      show "length xs = length ys" using xs ys by simp
    next
      fix i assume i: "i < length xs"
      have "bit (horner_sum of_bool (2::int) xs) i = bit (horner_sum of_bool (2::int) ys) i"
        by (simp only: h)
      with i xs ys show "xs ! i = ys ! i"
        by (simp add: bit_horner_sum_bit_iff)
    qed
  qed
  have img: "(\<lambda>bs. encodeByte (map enc bs)) ` {bs. length bs = 8} = Num ` {0..<256}"
  proof (intro equalityI subsetI)
    fix y assume "y \<in> (\<lambda>bs. encodeByte (map enc bs)) ` {bs. length bs = 8}"
    then obtain bs where "length bs = 8" "y = encodeByte (map enc bs)" by auto
    then show "y \<in> Num ` {0..<256}"
      using horner_bound [of bs] by (simp add: eq)
  next
    fix y assume "y \<in> Num ` {0..<256}"
    then obtain n :: int where n: "0 \<le> n" "n < 256" "y = Num n" by auto
    let ?bs = "map (bit n) [0..<8]"
    have "horner_sum of_bool 2 ?bs = take_bit 8 n"
      by (rule horner_sum_bit_eq_take_bit)
    also have "\<dots> = n"
      using n by (simp add: take_bit_int_eq_self)
    finally have hs: "horner_sum of_bool 2 ?bs = n" .
    have "encodeByte (map enc ?bs) = Num (horner_sum of_bool 2 ?bs)"
      by (rule eq) simp
    with hs n have "encodeByte (map enc ?bs) = y"
      by (simp only:)
    moreover have "?bs \<in> {bs. length bs = 8}" by simp
    ultimately show "y \<in> (\<lambda>bs. encodeByte (map enc bs)) ` {bs. length bs = 8}"
      by blast
  qed
  from inj img show "bij_betw (\<lambda>bs. encodeByte (map enc bs)) {bs. length bs = 8} (Num ` {0..<256})"
    by (simp add: bij_betw_def)
next
  fix bs :: "bool list" assume len: "length bs = 8"
  have "encodeByte (map enc bs) = Num (horner_sum of_bool 2 bs)"
    using enc len by (intro encodeByte_horner) simp_all
  moreover have "\<forall>i<8. bit (horner_sum of_bool (2::int) bs) i = bs ! i"
    using len by (simp add: bit_horner_sum_bit_iff)
  ultimately show "\<exists>n. encodeByte (map enc bs) = Num n \<and> (\<forall>i<8. bit n i = bs ! i)"
    by blast
qed

theorem encodeByte_bijection_witness:
  "bij_betw (\<lambda>bs. encodeByte (map Boolean bs)) {bs. length bs = 8} (Num ` {0..<256})
   \<and> (\<exists>n. encodeByte (map Boolean [True, True, False, True, False, True, False, True]) = Num n
          \<and> bit n 0 \<and> bit n 1 \<and> \<not> bit n 2 \<and> bit n 3 \<and> \<not> bit n 4 \<and> bit n 5 \<and> \<not> bit n 6 \<and> bit n 7)"
proof -
  have h: "\<forall>b. ToNumber (Boolean b) = Num (if b then 1 else 0)" by simp
  have l: "length [True, True, False, True, False, True, False, True] = 8" by simp
  from encodeByte_bijection [OF h] l
  obtain n where n: "encodeByte (map Boolean [True, True, False, True, False, True, False, True]) = Num n"
    "\<forall>i<8. bit n i = [True, True, False, True, False, True, False, True] ! i"
    by blast
  have "bit n 0 \<and> bit n 1 \<and> \<not> bit n 2 \<and> bit n 3 \<and> \<not> bit n 4 \<and> bit n 5 \<and> \<not> bit n 6 \<and> bit n 7"
    using n(2) by simp
  with n(1) encodeByte_bijection [OF h] show ?thesis by blast
qed

section \<open>Digit content\<close>

text \<open>
  C1. \<open>setDigitSegments(0, [0,0,1,1,0,1,1,1])\<close>, the call of the source's own example,
  throws a \<open>ReferenceError\<close> on the identifier \<open>segments\<close> and sends nothing: the state
  is the one it was given.
\<close>

theorem setDigitSegments_throws_ReferenceError:
  "setDigitSegments 0 (numbers [0, 0, 1, 1, 0, 1, 1, 1]) chain_of_two
     = (Some (ReferenceError ''segments''), chain_of_two)"
  by (simp add: setDigitSegments_def)

text \<open>No call of \<open>setDigitSegments\<close> returns normally or sends a frame.\<close>

lemma setDigitSegments_never_writes:
  "setDigitSegments n segment s =
     (Some (if n < 0 \<or> n > 7 then Thrown ''Invalid digit number''
            else ReferenceError ''segments''), s)"
  by (simp add: setDigitSegments_def)

text \<open>
  C5. For every digit index \<open>n\<close> from 0 to 7, every symbol and either value of \<open>dp\<close>,
  on a controller with a handle, \<open>setDigitSymbol\<close> sends one frame: to the register
  \<open>Digit\<close>\<open>n\<close> (address \<open>n + 1\<close>), the font-table value of the symbol (0 when the table
  has no such key), with \<open>0x80\<close> OR-ed in exactly when \<open>dp\<close> is set. It throws exactly
  when \<open>n\<close> is below 0 or above 7, whatever the symbol. In particular
  \<open>setDigitSymbol(3, '9', true)\<close> sends \<open>Font['9'] | 0x80\<close> to register \<open>0x04\<close>.
\<close>

theorem setDigitSymbol_writes:
  "(0 \<le> n \<and> n \<le> 7 \<and> spi s = Some h \<longrightarrow>
      Registers (''Digit'' @ ToString n) = Number (Num (n + 1))
      \<and> setDigitSymbol n symbol dp s
          = (None, s\<lparr>transfers := transfers s @
               [(h, frame (n + 1) ((case map_of Font symbol of Some v \<Rightarrow> v | None \<Rightarrow> 0)
                                     OR (if dp then 0x80 else 0)))]\<rparr>))
   \<and> (spi s = Some h \<longrightarrow> (fst (setDigitSymbol n symbol dp s) \<noteq> None \<longleftrightarrow> n < 0 \<or> n > 7))
   \<and> (spi s = Some h \<longrightarrow>
        setDigitSymbol 3 ''9'' True s
          = (None, s\<lparr>transfers := transfers s @
               [(h, frame 0x04 (parseInt2 ''1111011'' OR 0x80))]\<rparr>))"
proof -
  note main = setDigitSymbol_frame [where s = s and h = h]
  have nine: "map_of Font ''9'' = Some (parseInt2 ''1111011'')"
    by (simp add: Font_def)
  have thrown: "fst (setDigitSymbol n symbol dp s) \<noteq> None \<longleftrightarrow> n < 0 \<or> n > 7"
    if h: "spi s = Some h"
  proof (cases "n < 0 \<or> n > 7")
    case True
    then show ?thesis by (simp add: setDigitSymbol_def)
  next
    case False
    then show ?thesis
      using main [where n = n and symbol = symbol and dp = dp] h by simp
  qed
  have reg: "Registers (''Digit'' @ ToString n) = Number (Num (n + 1))"
    if "0 \<le> n" "n \<le> 7"
    using that by (rule Digit_register)
  from main [where n = 3 and symbol = "''9''" and dp = True] nine
  have ex: "spi s = Some h \<Longrightarrow> setDigitSymbol 3 ''9'' True s
          = (None, s\<lparr>transfers := transfers s @
               [(h, frame 0x04 (parseInt2 ''1111011'' OR 0x80))]\<rparr>)"
    by simp
  show ?thesis
    using main [where n = n and symbol = symbol and dp = dp] thrown reg ex by blast
qed

theorem setDigitSymbol_writes_witness:
  "setDigitSymbol 3 ''9'' True chain_of_two
     = (None, chain_of_two\<lparr>transfers := [(0, frame 0x04 0xFB)]\<rparr>)
   \<and> setDigitSymbol 0 ''P'' False chain_of_two
     = (None, chain_of_two\<lparr>transfers := [(0, frame 0x01 0x00)]\<rparr>)
   \<and> fst (setDigitSymbol 8 ''9'' True chain_of_two) \<noteq> None"
proof -
  have P: "map_of Font ''P'' = None"
    by (simp add: Font_def)
  have nine: "map_of Font ''9'' = Some 123"
    by (simp add: Font_def parseInt2_def)
  have h: "spi chain_of_two = Some 0"
    by (simp add: chain_of_two_def)
  show ?thesis
    using setDigitSymbol_writes [of 3 chain_of_two 0 "''9''" True]
          setDigitSymbol_writes [of 0 chain_of_two 0 "''P''" False]
          setDigitSymbol_writes [of 8 chain_of_two 0 "''9''" True]
    by (simp add: P nine h chain_of_two_def)
qed

section \<open>Clearing the display\<close>




text \<open>On the vector of nine ones the two paths part: the symbol path throws at digit 8, as
  the witness shows, where the raw writes would all return.\<close>

lemma raw_path_on_nine_ones:
  "fst (run_all (map (\<lambda>j. setDigitSegmentsByte (int j) (Number (Num 0x00))) [0..<9]) nine_ones)
     = None"
proof -
  have u9: "[0..<9] = [0, 1, 2, 3, 4, 5, 6, 7, 8]"
    by (simp add: upt_rec)
  show ?thesis
    unfolding u9
    by (simp add: setDigitSegmentsByte_def shiftOut_def nine_ones_def chain_of_two_def)
qed

text \<open>
  C10. On a controller with a handle whose decode-mode vector was never set,
  \<open>clearDisplay\<close> first runs \<open>setDecodeNone\<close>, which sends the frame (DecodeMode register
  \<open>0x09\<close>, \<open>0x00\<close>) and stores the vector of eight zeros; the eight digit frames
  follow, and the stored vector stays all-no-decode. On a controller whose vector is
  set (its length is then 8), \<open>clearDisplay\<close> sends the eight digit frames and nothing
  else, and changes nothing but the log of transfers.
\<close>

theorem clearDisplay_decode_default:
  "(decodeModes s = None \<and> spi s = Some h \<longrightarrow>
      setDecodeNone s = (None, s\<lparr>decodeModes := Some (numbers [0,0,0,0,0,0,0,0]),
                                   transfers := transfers s @ [(h, frame 0x09 0x00)]\<rparr>)
      \<and> clearDisplay s
          = (None, s\<lparr>decodeModes := Some (numbers [0,0,0,0,0,0,0,0]),
                       transfers := transfers s @ (h, frame 0x09 0x00) #
                         map (\<lambda>i. (h, frame (int i + 1) 0x00)) [0..<8]\<rparr>))
   \<and> (decodeModes s = Some modes \<and> length modes = 8 \<and> spi s = Some h \<longrightarrow>
        clearDisplay s
          = (None, s\<lparr>transfers := transfers s @
                         map (\<lambda>i. (h, frame (int i + 1) 0x00)) [0..<8]\<rparr>))"
proof (intro conjI impI)
  assume a: "decodeModes s = None \<and> spi s = Some h"
  let ?zeros = "numbers [0,0,0,0,0,0,0,0]"
  let ?s1 = "s\<lparr>decodeModes := Some ?zeros, transfers := transfers s @ [(h, frame 0x09 0x00)]\<rparr>"
  from a show none: "setDecodeNone s = (None, ?s1)"
    by (intro setDecodeNone_frame) simp
  have len: "length ?zeros = 8"
    by (simp add: numbers_def)
  have "clear_loop 0 ?s1
      = (None, ?s1\<lparr>transfers := transfers ?s1 @
           map (\<lambda>j. (h, frame (int j + 1) 0)) [0..<length ?zeros]\<rparr>)"
    using a len by (intro clear_loop_writes) simp_all
  with a none len show "clearDisplay s
      = (None, s\<lparr>decodeModes := Some ?zeros,
                   transfers := transfers s @ (h, frame 0x09 0x00) #
                     map (\<lambda>i. (h, frame (int i + 1) 0x00)) [0..<8]\<rparr>)"
    by (simp add: clearDisplay_def)
next
  assume "decodeModes s = Some modes \<and> length modes = 8 \<and> spi s = Some h"
  then show "clearDisplay s
      = (None, s\<lparr>transfers := transfers s @
                     map (\<lambda>i. (h, frame (int i + 1) 0x00)) [0..<8]\<rparr>)"
    using clearDisplay_set [of s modes h] by simp
qed

theorem clearDisplay_decode_default_witness:
  "clearDisplay chain_of_two
     = (None, chain_of_two\<lparr>decodeModes := Some (numbers [0,0,0,0,0,0,0,0]),
          transfers := [(0, frame 0x09 0x00), (0, frame 1 0), (0, frame 2 0), (0, frame 3 0),
             (0, frame 4 0), (0, frame 5 0), (0, frame 6 0), (0, frame 7 0), (0, frame 8 0)]\<rparr>)
   \<and> clearDisplay (chain_of_two\<lparr>decodeModes := Some (numbers [1,0,1,0,1,0,1,0])\<rparr>)
     = (None, chain_of_two\<lparr>decodeModes := Some (numbers [1,0,1,0,1,0,1,0]),
          transfers := [(0, frame 1 0), (0, frame 2 0), (0, frame 3 0),
             (0, frame 4 0), (0, frame 5 0), (0, frame 6 0), (0, frame 7 0), (0, frame 8 0)]\<rparr>)"
proof -
  have u: "[0..<8] = [0, 1, 2, 3, 4, 5, 6, 7]"
    by (simp add: upt_rec)
  have l: "length (numbers [1,0,1,0,1,0,1,0]) = 8"
    by (simp add: numbers_def)
  show ?thesis
    using clearDisplay_decode_default [of chain_of_two 0 "numbers [1,0,1,0,1,0,1,0]"]
          clearDisplay_decode_default
            [of "chain_of_two\<lparr>decodeModes := Some (numbers [1,0,1,0,1,0,1,0])\<rparr>" 0
                "numbers [1,0,1,0,1,0,1,0]"]
    by (simp add: u l chain_of_two_def)
qed

end
